theory Spec2Isabelle
  imports Main "HOL-Library.Sublist"
begin

section \<open>Strings as the source uses them\<close>

text \<open>
  A JavaScript string is modelled as a \<open>string\<close> (a list of characters). The two regular
  expressions of the source, \<open>/[A-Z]/g\<close>, \<open>/^use/\<close> and \<open>/Hook$/\<close>, and the method
  \<open>String.prototype.includes\<close> only look at ASCII characters, so nothing depends on how
  a character outside ASCII is encoded.
\<close>

definition isUpperAZ :: "char \<Rightarrow> bool" where
  \<comment> \<open>the character class \<open>[A-Z]\<close>\<close>
  "isUpperAZ c = (65 \<le> (of_char c :: nat) \<and> (of_char c :: nat) \<le> 90)"

definition toLowerCase :: "char \<Rightarrow> char" where
  \<comment> \<open>\<open>letter.toLowerCase()\<close>, which the source only applies to a match of \<open>[A-Z]\<close>\<close>
  "toLowerCase c = (if isUpperAZ c then char_of ((of_char c :: nat) + 32) else c)"

fun includes_str :: "string \<Rightarrow> string \<Rightarrow> bool" where
  \<comment> \<open>\<open>s.includes(sub)\<close>: \<open>sub\<close> occurs in \<open>s\<close> as a contiguous run\<close>
  "includes_str [] sub = (sub = [])"
| "includes_str (c # cs) sub = (prefix sub (c # cs) \<or> includes_str cs sub)"

section \<open>The Naming Resolver (Source/v3/inference.ts, lines 84 to 90)\<close>

text \<open>
  \<^verbatim>\<open>function kebabCase(str) { return str.replace(/[A-Z]/g, (letter) => `-${letter.toLowerCase()}`); }\<close>
  A global replace of a one-character class rewrites every character on its own: a match
  becomes a hyphen followed by the lower-case letter, any other character stays.
\<close>

fun kebabCase :: "string \<Rightarrow> string" where
  "kebabCase [] = []"
| "kebabCase (c # cs) =
     (if isUpperAZ c then CHR ''-'' # toLowerCase c # kebabCase cs else c # kebabCase cs)"

text \<open>
  \<^verbatim>\<open>function extractHookName(name) { return name.replace(/^use/, "").replace(/Hook$/, ""); }\<close>
  Two replacements, one after the other: the first removes \<open>use\<close> at the start, the second
  removes \<open>Hook\<close> at the end of what the first returned.
\<close>

definition replace_use :: "string \<Rightarrow> string" where
  "replace_use name = (if prefix ''use'' name then drop 3 name else name)"

definition replace_Hook :: "string \<Rightarrow> string" where
  "replace_Hook name = (if suffix ''Hook'' name then take (length name - 4) name else name)"

definition extractHookName :: "string \<Rightarrow> string" where
  "extractHookName name = replace_Hook (replace_use name)"

definition reactiveId :: "string \<Rightarrow> string" where
  \<comment> \<open>\<open>const reactiveId = kebabCase(extractHookName(hookName))\<close> (line 60)\<close>
  "reactiveId hookName = kebabCase (extractHookName hookName)"

text \<open>
  The type alias of lines 12 to 16,
  \<^verbatim>\<open>type ExtractHookName<T> = T extends `use${infer Name}` ? Name : T extends `${infer Name}Hook` ? Name : T\<close>
  read as a function on string literal types. It exists at compile time only; the second
  branch is reached only when the first does not match.
\<close>

definition ExtractHookName :: "string \<Rightarrow> string" where
  "ExtractHookName t =
     (if prefix ''use'' t then drop 3 t
      else if suffix ''Hook'' t then take (length t - 4) t
      else t)"

section \<open>Framework detection (Source/v3/inference.ts, lines 24 to 34 and 109 to 141)\<close>

datatype Framework = React | Solid | Vue

record HookContext =
  hc_filename :: string
  hc_imports :: "string list"
  hc_framework :: Framework

definition inferFrameworkFromFilename :: "string \<Rightarrow> Framework" where
  "inferFrameworkFromFilename filename =
     (if includes_str filename ''.tsx'' \<or> includes_str filename ''.jsx'' then React
      else if includes_str filename ''.solid'' then Solid
      else if includes_str filename ''.vue'' then Vue
      else React)"

fun inferImportsFromFramework :: "Framework \<Rightarrow> string list" where
  "inferImportsFromFramework React = [''useState'', ''useEffect'']"
| "inferImportsFromFramework Solid = [''createSignal'', ''createEffect'']"
| "inferImportsFromFramework Vue = [''ref'', ''onMounted'']"

definition inferHookContext :: "string \<Rightarrow> HookContext" where
  "inferHookContext filename =
     (let framework = inferFrameworkFromFilename filename;
          imports = inferImportsFromFramework framework
      in \<lparr>hc_filename = filename, hc_imports = imports, hc_framework = framework\<rparr>)"

section \<open>Configurations and plugins\<close>

text \<open>
  Modelled from the spec: the types \<open>ReactiveConfig<T>\<close>, \<open>Plugin\<close> and \<open>Reactive<T>\<close>, which
  the source imports (from \<open>./types\<close> and \<open>sweettooth\<close>) and declares nowhere. Section 3 of
  the spec gives their fields: \<open>id\<close>, \<open>type\<close>, \<open>initialValue\<close>, \<open>dependencies\<close>, \<open>plugins\<close> and
  \<open>meta\<close> for a configuration; a name and up to five optional interceptors for a plugin;
  \<open>id\<close>, \<open>type\<close>, \<open>value\<close>, \<open>dependencies\<close> and the lifecycle state for a Reactive.

  Every field of a configuration is optional, \<open>None\<close> standing for a property that is
  absent: the source builds configurations from \<open>Partial<ReactiveConfig<T>>\<close> and by a
  cast of \<open>{ name }\<close>. A property that is present and holds \<open>undefined\<close> is not modelled.
  \<open>meta\<close> is an open mapping; a value in it is a string or anything else (\<open>MetaOther\<close>).

  A plugin holds functions over configurations and a configuration holds plugins. HOL
  has no type that contains functions of itself, so the fields an interceptor works on
  are the record \<open>ConfigCore\<close>, and \<open>plugins\<close> is the first field of its extensions. The
  interceptors of the source are defined for every extension and pass it on untouched.
  A transforming interceptor (\<open>beforeCreate\<close>, \<open>beforeUpdate\<close>) that raises returns \<open>Inl\<close>
  with the message. The other three receive the final payload and return nothing.
\<close>

datatype 'a MetaValue = MetaString string | MetaOther 'a

type_synonym 'a Meta = "string \<rightharpoonup> 'a MetaValue"

record ('v, 'a) ConfigCore =
  cfg_id :: "string option"
  cfg_type :: "string option"
  cfg_initialValue :: "'v option"
  cfg_dependencies :: "string list option"
  cfg_meta :: "'a Meta option"

datatype LifecycleState = Uninitialized | Creating | Active | Updating | Destroying | Destroyed

text \<open>
  The handle that \<open>create\<close> resolves to is the Reactive. The adapters call its method
  \<open>set\<close> through \<open>r.set?.(newValue)\<close>, which allows for a handle that has no such
  property: \<open>r_set\<close> is \<open>None\<close> for such a handle, and \<open>Some SystemSet\<close> for a handle whose
  \<open>set\<close> is the system's \<open>set\<close> at the handle's id.
\<close>

datatype SetMethod = SystemSet

record 'v Reactive =
  r_id :: string
  r_type :: string
  r_value :: 'v
  r_dependencies :: "string list"
  r_state :: LifecycleState
  r_set :: "SetMethod option"

text \<open>\<open>LifecycleHandlers<T>\<close> (unnamed/part\_000 lines 22 to 30, unnamed/part\_001 lines 4 to 12).\<close>

record ('v, 'a) LifecycleHandlers =
  lh_beforeCreate :: "(('v, 'a) ConfigCore \<Rightarrow> string + ('v, 'a) ConfigCore) option"
  lh_afterCreate :: "('v Reactive \<Rightarrow> unit) option"
  lh_beforeUpdate :: "('v \<Rightarrow> 'v \<Rightarrow> string + 'v) option"
  lh_afterUpdate :: "('v \<Rightarrow> unit) option"
  lh_beforeDestroy :: "('v Reactive \<Rightarrow> unit) option"

record ('v, 'a) Plugin =
  pl_name :: string
  pl_beforeCreate :: "(('v, 'a) ConfigCore \<Rightarrow> string + ('v, 'a) ConfigCore) option"
  pl_afterCreate :: "('v Reactive \<Rightarrow> unit) option"
  pl_beforeUpdate :: "('v \<Rightarrow> 'v \<Rightarrow> string + 'v) option"
  pl_afterUpdate :: "('v \<Rightarrow> unit) option"
  pl_beforeDestroy :: "('v Reactive \<Rightarrow> unit) option"

record ('v, 'a) ReactiveConfig = "('v, 'a) ConfigCore" +
  cfg_plugins :: "('v, 'a) Plugin list option"


definition metaOf :: "('v, 'a, 'z) ConfigCore_scheme \<Rightarrow> 'a Meta" where
  \<comment> \<open>the entries that \<open>...config.meta\<close> copies: none when \<open>meta\<close> is absent\<close>
  "metaOf config = (case cfg_meta config of None \<Rightarrow> Map.empty | Some m \<Rightarrow> m)"

section \<open>The framework plugin (Source/v3/inference.ts, lines 93 to 106)\<close>

fun frameworkName :: "Framework \<Rightarrow> string" where
  "frameworkName React = ''react''"
| "frameworkName Solid = ''solid''"
| "frameworkName Vue = ''vue''"

definition frameworkPlugin_beforeCreate ::
  "Framework \<Rightarrow> ('v, 'a, 'z) ConfigCore_scheme \<Rightarrow> ('v, 'a, 'z) ConfigCore_scheme" where
  \<comment> \<open>\<open>(config) => ({ ...config, meta: { ...config.meta, framework } })\<close>\<close>
  "frameworkPlugin_beforeCreate framework config =
     config\<lparr>cfg_meta :=
       Some ((metaOf config)(''framework'' \<mapsto> MetaString (frameworkName framework)))\<rparr>"

definition createFrameworkPlugin :: "Framework \<Rightarrow> ('v, 'a) Plugin" where
  "createFrameworkPlugin framework =
     \<lparr>pl_name = frameworkName framework @ ''-adapter'',
      pl_beforeCreate = Some (\<lambda>config. Inr (frameworkPlugin_beforeCreate framework config)),
      pl_afterCreate = None, pl_beforeUpdate = None, pl_afterUpdate = None,
      pl_beforeDestroy = None\<rparr>"

section \<open>The inferred hook factory (Source/v3/inference.ts, lines 47 to 81)\<close>




section \<open>The enhanced hook factory (unnamed/part\_000, lines 33 to 99)\<close>

text \<open>
  Line 48 reads \<open>const processedName = ExtractHookName<typeof rawName>\<close>. The only
  \<open>ExtractHookName\<close> of the file is the type alias of lines 8 to 12; a type alias is
  erased, so at run time the identifier is bound to no value and evaluating it raises a
  \<open>ReferenceError\<close>. \<open>useEnhancedHook\<close> therefore raises at line 48 on every input: the
  lines after it, the call of \<open>system.create\<close> among them, are never reached, and the
  lines before it change nothing outside the function.

  The naming plugin of lines 56 to 67 is a closure over three strings. It is modelled
  for any three strings, as the object that the code writes down.
\<close>

definition namingPlugin_beforeCreate ::
  "string \<Rightarrow> string \<Rightarrow> string \<Rightarrow> ('v, 'a, 'z) ConfigCore_scheme \<Rightarrow> ('v, 'a, 'z) ConfigCore_scheme" where
  \<comment> \<open>\<open>(originalConfig) => ({ ...originalConfig, meta: { ...originalConfig.meta, hookName: rawName, processedName, kebabName } })\<close>\<close>
  "namingPlugin_beforeCreate rawName processedName kebabName originalConfig =
     originalConfig\<lparr>cfg_meta :=
       Some ((metaOf originalConfig)
         (''hookName'' \<mapsto> MetaString rawName,
          ''processedName'' \<mapsto> MetaString processedName,
          ''kebabName'' \<mapsto> MetaString kebabName))\<rparr>"

definition namingPlugin :: "string \<Rightarrow> string \<Rightarrow> string \<Rightarrow> ('v, 'a) Plugin" where
  "namingPlugin rawName processedName kebabName =
     \<lparr>pl_name = ''naming-'' @ kebabName,
      pl_beforeCreate =
        Some (\<lambda>originalConfig.
          Inr (namingPlugin_beforeCreate rawName processedName kebabName originalConfig)),
      pl_afterCreate = None, pl_beforeUpdate = None, pl_afterUpdate = None,
      pl_beforeDestroy = None\<rparr>"


section \<open>The Component System\<close>

text \<open>
  Modelled from the spec: the class \<open>ComponentSystem\<close>, which the source imports and
  does not define. The model follows sections 4.2, 4.3 and 7 of the spec for \<open>create\<close>,
  \<open>set\<close> and \<open>get\<close>:
  \<^item> the live-instance registry is an association list from ids to the Reactive and
    the plugin pipeline of its creation request;
  \<^item> \<open>create\<close> resolves the id (the supplied one, else the canonical transform of the
    conventional name, which the model reads from \<open>meta.hookName\<close>), validates (id
    uniqueness, cycle-freedom, no duplicate plugin names) before any interceptor runs,
    runs the \<open>beforeCreate\<close> fold in registration order, constructs the Reactive from the
    folded configuration and registers it;
  \<^item> \<open>set\<close> looks the Reactive up, runs the \<open>beforeUpdate\<close> fold on the proposed value
    and commits the result; a failing interceptor leaves the value as it was;
  \<^item> \<open>get\<close> returns the committed value;
  \<^item> every handle that \<open>create\<close> resolves to has \<open>set\<close> (section 6: the core deals in
    \<open>Reactive<T>.get()\<close> and \<open>set()\<close>).
  The spec gives no outcome for a request with neither id nor name, or with no
  \<open>initialValue\<close>: the model answers \<open>InvalidConfig\<close>. The fan-out chains return nothing
  and alter no payload, so they leave no mark on this model. The recomputation of
  dependents after a \<open>set\<close> is left open by the spec (section 9) and is not modelled, nor
  is \<open>destroy\<close>.
\<close>

datatype SystemError = DuplicateId | CyclicDependency | PluginRejected | NotFound | InvalidConfig

record ('v, 'a) Entry =
  en_reactive :: "'v Reactive"
  en_pipeline :: "('v, 'a) Plugin list"

type_synonym ('v, 'a) ComponentSystem = "(string \<times> ('v, 'a) Entry) list"

fun beforeCreateFold ::
  "('v, 'a) Plugin list \<Rightarrow> ('v, 'a) ConfigCore \<Rightarrow> string + ('v, 'a) ConfigCore" where
  "beforeCreateFold [] config = Inr config"
| "beforeCreateFold (p # ps) config =
     (case pl_beforeCreate p of
        None \<Rightarrow> beforeCreateFold ps config
      | Some f \<Rightarrow> (case f config of Inl e \<Rightarrow> Inl e | Inr config' \<Rightarrow> beforeCreateFold ps config'))"

fun beforeUpdateFold :: "('v, 'a) Plugin list \<Rightarrow> 'v \<Rightarrow> 'v \<Rightarrow> string + 'v" where
  "beforeUpdateFold [] oldValue v = Inr v"
| "beforeUpdateFold (p # ps) oldValue v =
     (case pl_beforeUpdate p of
        None \<Rightarrow> beforeUpdateFold ps oldValue v
      | Some f \<Rightarrow> (case f oldValue v of Inl e \<Rightarrow> Inl e | Inr v' \<Rightarrow> beforeUpdateFold ps oldValue v'))"

fun dependsOn :: "('v, 'a) ComponentSystem \<Rightarrow> nat \<Rightarrow> string \<Rightarrow> string \<Rightarrow> bool" where
  \<comment> \<open>\<open>a\<close> is \<open>target\<close>, or reaches it along declared dependencies in at most \<open>n\<close> steps\<close>
  "dependsOn sys 0 a target = (a = target)"
| "dependsOn sys (Suc n) a target =
     (a = target \<or>
      (case map_of sys a of
         None \<Rightarrow> False
       | Some e \<Rightarrow> list_ex (\<lambda>d. dependsOn sys n d target) (r_dependencies (en_reactive e))))"

definition closesCycle :: "('v, 'a) ComponentSystem \<Rightarrow> string \<Rightarrow> string list \<Rightarrow> bool" where
  "closesCycle sys rid deps = list_ex (\<lambda>d. dependsOn sys (length sys) d rid) deps"

definition duplicatePluginNames :: "('v, 'a) Plugin list \<Rightarrow> bool" where
  "duplicatePluginNames ps = (\<not> distinct (map pl_name ps))"

definition conventionalName :: "('v, 'a, 'z) ConfigCore_scheme \<Rightarrow> string option" where
  "conventionalName config =
     (case metaOf config ''hookName'' of Some (MetaString n) \<Rightarrow> Some n | _ \<Rightarrow> None)"

definition resolveId :: "('v, 'a, 'z) ConfigCore_scheme \<Rightarrow> string option" where
  "resolveId config =
     (case cfg_id config of
        Some i \<Rightarrow> Some i
      | None \<Rightarrow> map_option reactiveId (conventionalName config))"

definition construct :: "string \<Rightarrow> 'v \<Rightarrow> ('v, 'a) ConfigCore \<Rightarrow> 'v Reactive" where
  "construct rid v config =
     \<lparr>r_id = rid,
      r_type = (case cfg_type config of None \<Rightarrow> ''state'' | Some t \<Rightarrow> t),
      r_value = v,
      r_dependencies = (case cfg_dependencies config of None \<Rightarrow> [] | Some ds \<Rightarrow> ds),
      r_state = Active,
      r_set = Some SystemSet\<rparr>"

definition pluginsOf :: "('v, 'a, 'z) ReactiveConfig_scheme \<Rightarrow> ('v, 'a) Plugin list" where
  \<comment> \<open>the pipeline of a request: empty when \<open>plugins\<close> is absent\<close>
  "pluginsOf config = (case cfg_plugins config of None \<Rightarrow> [] | Some ps \<Rightarrow> ps)"

definition create ::
  "('v, 'a) ComponentSystem \<Rightarrow> ('v, 'a, 'z) ReactiveConfig_scheme \<Rightarrow>
   (SystemError + 'v Reactive) \<times> ('v, 'a) ComponentSystem" where
  \<comment> \<open>Modelled from the spec: the operation \<open>create(config)\<close> of section 4.3\<close>
  "create sys config =
     (let plugins = pluginsOf config;
          deps = (case cfg_dependencies config of None \<Rightarrow> [] | Some ds \<Rightarrow> ds)
      in case resolveId config of
           None \<Rightarrow> (Inl InvalidConfig, sys)
         | Some rid \<Rightarrow>
             if map_of sys rid \<noteq> None then (Inl DuplicateId, sys)
             else if closesCycle sys rid deps then (Inl CyclicDependency, sys)
             else if duplicatePluginNames plugins then (Inl PluginRejected, sys)
             else (case beforeCreateFold plugins (ConfigCore.truncate (config\<lparr>cfg_id := Some rid\<rparr>)) of
                     Inl e \<Rightarrow> (Inl PluginRejected, sys)
                   | Inr config' \<Rightarrow>
                       (case cfg_initialValue config' of
                          None \<Rightarrow> (Inl InvalidConfig, sys)
                        | Some v \<Rightarrow>
                            (let r = construct rid v config'
                             in (Inr r, (rid, \<lparr>en_reactive = r, en_pipeline = plugins\<rparr>) # sys)))))"

definition commit :: "string \<Rightarrow> 'v \<Rightarrow> ('v, 'a) ComponentSystem \<Rightarrow> ('v, 'a) ComponentSystem" where
  "commit rid v sys =
     map (\<lambda>(k, e). if k = rid then (k, e\<lparr>en_reactive := (en_reactive e)\<lparr>r_value := v\<rparr>\<rparr>) else (k, e)) sys"

definition set_value ::
  "('v, 'a) ComponentSystem \<Rightarrow> string \<Rightarrow> 'v \<Rightarrow> (SystemError + unit) \<times> ('v, 'a) ComponentSystem" where
  \<comment> \<open>Modelled from the spec: the operation \<open>set(id, newValue)\<close> of section 4.3\<close>
  "set_value sys rid newValue =
     (case map_of sys rid of
        None \<Rightarrow> (Inl NotFound, sys)
      | Some e \<Rightarrow>
          (case beforeUpdateFold (en_pipeline e) (r_value (en_reactive e)) newValue of
             Inl msg \<Rightarrow> (Inl PluginRejected, sys)
           | Inr v \<Rightarrow> (Inr (), commit rid v sys)))"

definition get_value :: "('v, 'a) ComponentSystem \<Rightarrow> string \<Rightarrow> SystemError + 'v" where
  \<comment> \<open>Modelled from the spec: the operation \<open>get(id)\<close> of section 4.3\<close>
  "get_value sys rid =
     (case map_of sys rid of None \<Rightarrow> Inl NotFound | Some e \<Rightarrow> Inr (r_value (en_reactive e)))"

datatype JSError = TypeError | ReferenceError string | Error string

record ('v, 'a) EnhancedHook =
  eh_reactive :: "SystemError + 'v Reactive"
  eh_meta :: "string \<rightharpoonup> string"


section \<open>The framework adapters and \<open>useReactive\<close> (unnamed/part\_001, lines 14 to 147)\<close>

text \<open>
  \<open>frameworkAdapters\<close> is an object literal with the three keys \<open>react\<close>, \<open>solid\<close> and
  \<open>vue\<close>; looking up any other key yields no adapter (for a key such as \<open>toString\<close>, a
  value that has no \<open>setup\<close>), and the call \<open>adapter.setup(initialValue)\<close> then raises a
  \<open>TypeError\<close>.

  The framework-local state is what \<open>setup\<close> creates through the framework's own library:
  the state cell of \<open>useState\<close>, the signal of \<open>createSignal\<close>, the ref of \<open>ref\<close>. Each
  holds one value, the initial value at first. \<open>cleanup\<close> builds a function that nobody
  calls and changes nothing.

  \<open>useReactive\<close> returns \<open>{ value, setValue, reactive }\<close>. \<open>value\<close> is the state read at the
  time of the call (react), the signal's accessor function (solid) or the ref object
  (vue). \<open>setValue\<close> is one of three closures, named here by a constructor and run by the
  function \<open>setValue\<close>. \<open>reactive\<close> is the promise returned by \<open>system.create\<close>, modelled by its
  settlement. \<open>crypto.randomUUID()\<close> is the parameter \<open>uuid\<close>.
\<close>

record ('v, 'a) HookConfig =
  hk_id :: "string option"
  hk_type :: "string option"
  hk_initialValue :: 'v
  hk_lifecycle :: "('v, 'a) LifecycleHandlers option"
  hk_dependencies :: "string list option"

datatype Adapter = ReactAdapter | SolidAdapter | VueAdapter

definition frameworkAdapters :: "string \<Rightarrow> Adapter option" where
  "frameworkAdapters =
     map_of [(''react'', ReactAdapter), (''solid'', SolidAdapter), (''vue'', VueAdapter)]"

datatype 'v FrameworkState = ReactState 'v | SolidSignal 'v | VueRef 'v

fun adapter_setup :: "Adapter \<Rightarrow> 'v \<Rightarrow> 'v FrameworkState" where
  "adapter_setup ReactAdapter initialValue = ReactState initialValue"
| "adapter_setup SolidAdapter initialValue = SolidSignal initialValue"
| "adapter_setup VueAdapter initialValue = VueRef initialValue"

fun stored :: "'v FrameworkState \<Rightarrow> 'v" where
  \<comment> \<open>the value the framework-local state holds\<close>
  "stored (ReactState v) = v"
| "stored (SolidSignal v) = v"
| "stored (VueRef v) = v"

datatype 'v BindingValue = DirectValue 'v | AccessorFunction | RefObject

datatype Setter = ReactSetValue | SolidSetValue | VueSetValue

record 'v Binding =
  b_value :: "'v BindingValue"
  b_setValue :: Setter
  b_reactive :: "SystemError + 'v Reactive"

datatype 'v Event = SetResolved | SetRejected | SetAbsent | LocalWrite 'v

record ('v, 'a) World =
  w_system :: "('v, 'a) ComponentSystem"
  w_local :: "'v FrameworkState"
  w_trace :: "'v Event list"

definition noHandlers :: "('v, 'a) LifecycleHandlers" where
  \<comment> \<open>the default \<open>lifecycle = {}\<close>\<close>
  "noHandlers =
     \<lparr>lh_beforeCreate = None, lh_afterCreate = None, lh_beforeUpdate = None,
      lh_afterUpdate = None, lh_beforeDestroy = None\<rparr>"

definition lifecyclePlugin :: "('v, 'a) HookConfig \<Rightarrow> string \<Rightarrow> ('v, 'a) Plugin" where
  \<comment> \<open>lines 85 to 92; \<open>id || crypto.randomUUID()\<close> takes the UUID for an absent or empty id\<close>
  "lifecyclePlugin config uuid =
     (let lifecycle = (case hk_lifecycle config of None \<Rightarrow> noHandlers | Some l \<Rightarrow> l)
      in \<lparr>pl_name = ''lifecycle-'' @
             (case hk_id config of None \<Rightarrow> uuid | Some i \<Rightarrow> if i = [] then uuid else i),
          pl_beforeCreate = lh_beforeCreate lifecycle,
          pl_afterCreate = lh_afterCreate lifecycle,
          pl_beforeUpdate = lh_beforeUpdate lifecycle,
          pl_afterUpdate = lh_afterUpdate lifecycle,
          pl_beforeDestroy = lh_beforeDestroy lifecycle\<rparr>)"

definition reactiveRequest :: "('v, 'a) HookConfig \<Rightarrow> string \<Rightarrow> ('v, 'a) ReactiveConfig" where
  \<comment> \<open>the argument of \<open>system.create\<close>, lines 98 to 104\<close>
  "reactiveRequest config uuid =
     \<lparr>cfg_id = hk_id config,
      cfg_type = Some (case hk_type config of None \<Rightarrow> ''state'' | Some t \<Rightarrow> t),
      cfg_initialValue = Some (hk_initialValue config),
      cfg_dependencies = Some (case hk_dependencies config of None \<Rightarrow> [] | Some ds \<Rightarrow> ds),
      cfg_meta = None,
      cfg_plugins = Some [lifecyclePlugin config uuid]\<rparr>"

definition useReactive ::
  "string \<Rightarrow> ('v, 'a) HookConfig \<Rightarrow> string \<Rightarrow> ('v, 'a) ComponentSystem \<Rightarrow>
   JSError + ('v Binding \<times> ('v, 'a) World)" where
  "useReactive framework config uuid sys =
     (case frameworkAdapters framework of
        None \<Rightarrow> Inl TypeError
      | Some adapter \<Rightarrow>
          (let state = adapter_setup adapter (hk_initialValue config);
               (reactive, sys') = create sys (reactiveRequest config uuid);
               world = \<lparr>w_system = sys', w_local = state, w_trace = []\<rparr>
           in if framework = ''react'' then
                Inr (\<lparr>b_value = DirectValue (stored state), b_setValue = ReactSetValue,
                      b_reactive = reactive\<rparr>, world)
              else if framework = ''solid'' then
                Inr (\<lparr>b_value = AccessorFunction, b_setValue = SolidSetValue,
                      b_reactive = reactive\<rparr>, world)
              else if framework = ''vue'' then
                Inr (\<lparr>b_value = RefObject, b_setValue = VueSetValue,
                      b_reactive = reactive\<rparr>, world)
              else Inl (Error (''Unsupported framework: '' @ framework))))"

fun localWrite :: "Setter \<Rightarrow> 'v \<Rightarrow> 'v FrameworkState" where
  \<comment> \<open>\<open>state.setState(newValue)\<close>, \<open>setValue(newValue)\<close> of the signal, \<open>state.value = newValue\<close>\<close>
  "localWrite ReactSetValue newValue = ReactState newValue"
| "localWrite SolidSetValue newValue = SolidSignal newValue"
| "localWrite VueSetValue newValue = VueRef newValue"

text \<open>
  Each of the three closures is
  \<^verbatim>\<open>async (newValue) => { await reactive.then((r) => r.set?.(newValue)); <write newValue to the local state>; }\<close>
  A rejected \<open>reactive\<close> or a rejected \<open>set\<close> makes the \<open>await\<close> raise, and the statement
  after it does not run. When the handle has no \<open>set\<close>, the optional call yields
  \<open>undefined\<close>, the \<open>await\<close> resolves and the local state is written, no update having
  run. The trace records what the closure has done, in the order in which it did it.
\<close>

definition setValue ::
  "'v Binding \<Rightarrow> 'v \<Rightarrow> ('v, 'a) World \<Rightarrow> (SystemError + unit) \<times> ('v, 'a) World" where
  "setValue binding newValue w =
     (case b_reactive binding of
        Inl e \<Rightarrow> (Inl e, w\<lparr>w_trace := w_trace w @ [SetRejected]\<rparr>)
      | Inr r \<Rightarrow>
          (case r_set r of
             None \<Rightarrow>
               (let w1 = w\<lparr>w_trace := w_trace w @ [SetAbsent]\<rparr>
                in (Inr (), w1\<lparr>w_local := localWrite (b_setValue binding) newValue,
                               w_trace := w_trace w1 @ [LocalWrite newValue]\<rparr>))
           | Some SystemSet \<Rightarrow>
               (case set_value (w_system w) (r_id r) newValue of
                  (Inl e, sys') \<Rightarrow>
                    (Inl e, w\<lparr>w_system := sys', w_trace := w_trace w @ [SetRejected]\<rparr>)
                | (Inr u, sys') \<Rightarrow>
                    (let w1 = w\<lparr>w_system := sys', w_trace := w_trace w @ [SetResolved]\<rparr>
                     in (Inr (), w1\<lparr>w_local := localWrite (b_setValue binding) newValue,
                                    w_trace := w_trace w1 @ [LocalWrite newValue]\<rparr>)))))"

fun setValues ::
  "'v Binding \<Rightarrow> 'v list \<Rightarrow> ('v, 'a) World \<Rightarrow> ('v, 'a) World" where
  \<comment> \<open>one call of \<open>setValue\<close> after the other, whatever each returned\<close>
  "setValues binding [] w = w"
| "setValues binding (v # vs) w = setValues binding vs (snd (setValue binding v w))"

fun readBinding :: "'v BindingValue \<Rightarrow> 'v FrameworkState \<Rightarrow> 'v" where
  \<comment> \<open>what the caller reads: \<open>value\<close>, \<open>value()\<close> or \<open>value.value\<close>\<close>
  "readBinding (DirectValue v) s = v"
| "readBinding AccessorFunction s = stored s"
| "readBinding RefObject s = stored s"


section \<open>The counter scenario\<close>

definition doubling :: "(int, unit) LifecycleHandlers" where
  "doubling = noHandlers\<lparr>lh_beforeUpdate := Some (\<lambda>oldValue newValue. Inr (2 * newValue))\<rparr>"

definition doublingPlugin :: "(int, unit) Plugin" where
  "doublingPlugin =
     \<lparr>pl_name = ''double'', pl_beforeCreate = None, pl_afterCreate = None,
      pl_beforeUpdate = Some (\<lambda>oldValue newValue. Inr (2 * newValue)),
      pl_afterUpdate = None, pl_beforeDestroy = None\<rparr>"

definition counterRequest :: "(int, unit) ReactiveConfig" where
  "counterRequest =
     \<lparr>cfg_id = Some ''counter'', cfg_type = None, cfg_initialValue = Some 0,
      cfg_dependencies = None, cfg_meta = None, cfg_plugins = Some [doublingPlugin]\<rparr>"

definition counterConfig :: "(int, unit) HookConfig" where
  "counterConfig =
     \<lparr>hk_id = Some ''counter'', hk_type = None, hk_initialValue = 0,
      hk_lifecycle = Some doubling, hk_dependencies = None\<rparr>"

definition coreScenario :: "int \<Rightarrow> SystemError + int" where
  \<comment> \<open>create the counter in an empty system, \<open>set("counter", n)\<close>, \<open>get("counter")\<close>\<close>
  "coreScenario n =
     (let (created, sys1) = create ([] :: (int, unit) ComponentSystem) counterRequest;
          (done, sys2) = set_value sys1 ''counter'' n
      in get_value sys2 ''counter'')"

definition adapterScenario :: "string \<Rightarrow> int \<Rightarrow> ((SystemError + int) \<times> int \<times> int) option" where
  \<comment> \<open>\<open>useReactive\<close> on the counter configuration in an empty system, then \<open>setValue(n)\<close>:
      what \<open>get("counter")\<close> returns, what the local state holds, what the binding shows\<close>
  "adapterScenario framework n =
     (case useReactive framework counterConfig ''0000'' ([] :: (int, unit) ComponentSystem) of
        Inl e \<Rightarrow> None
      | Inr (binding, w) \<Rightarrow>
          (case setValue binding n w of
             (Inl e, w') \<Rightarrow> None
           | (Inr u, w') \<Rightarrow>
               Some (get_value (w_system w') ''counter'', stored (w_local w'),
                     readBinding (b_value binding) (w_local w'))))"

section \<open>Inputs used in the examples\<close>




definition taggedConfig :: "(int, unit) ConfigCore" where
  \<comment> \<open>a configuration whose \<open>meta\<close> already has an entry of its own\<close>
  "taggedConfig =
     \<lparr>cfg_id = Some ''counter'', cfg_type = None, cfg_initialValue = Some 0,
      cfg_dependencies = None, cfg_meta = Some [''owner'' \<mapsto> MetaOther ()]\<rparr>"

definition vueTaggedConfig :: "(int, unit) ConfigCore" where
  \<comment> \<open>a configuration whose \<open>meta\<close> already names a framework\<close>
  "vueTaggedConfig =
     \<lparr>cfg_id = Some ''counter'', cfg_type = None, cfg_initialValue = Some 0,
      cfg_dependencies = None, cfg_meta = Some [''framework'' \<mapsto> MetaString ''vue'']\<rparr>"

definition counterBinding :: "int Binding \<times> (int, unit) World" where
  \<comment> \<open>what \<open>useReactive\<close> for solid returns on the counter configuration in an empty system\<close>
  "counterBinding =
     (case useReactive ''solid'' counterConfig ''0000'' [] of
        Inr bw \<Rightarrow> bw
      | Inl e \<Rightarrow>
          (\<lparr>b_value = AccessorFunction, b_setValue = SolidSetValue, b_reactive = Inl NotFound\<rparr>,
           \<lparr>w_system = [], w_local = SolidSignal 0, w_trace = []\<rparr>))"


definition rejectedBinding :: "int Binding" where
  \<comment> \<open>the solid binding that \<open>useReactive\<close> returns where the id \<open>counter\<close> is live already:
      its promise is rejected\<close>
  "rejectedBinding =
     \<lparr>b_value = AccessorFunction, b_setValue = SolidSetValue, b_reactive = Inl DuplicateId\<rparr>"

definition taken :: "(int, unit) ComponentSystem" where
  \<comment> \<open>a system in which the id \<open>counter\<close> is live already\<close>
  "taken = snd (create [] counterRequest)"

section \<open>Facts about the string functions\<close>

lemma includes_str_iff: "includes_str s sub = (\<exists>p q. s = p @ sub @ q)"
proof (induction s)
  case Nil
  then show ?case by auto
next
  case (Cons c cs)
  show ?case
  proof
    assume "includes_str (c # cs) sub"
    then consider "prefix sub (c # cs)" | "includes_str cs sub" by auto
    then show "\<exists>p q. c # cs = p @ sub @ q"
    proof cases
      case 1
      then obtain q where "c # cs = sub @ q" by (auto simp: prefix_def)
      then have "c # cs = [] @ sub @ q" by simp
      then show ?thesis by blast
    next
      case 2
      with Cons.IH obtain p q where "cs = p @ sub @ q" by blast
      then have "c # cs = (c # p) @ sub @ q" by simp
      then show ?thesis by blast
    qed
  next
    assume "\<exists>p q. c # cs = p @ sub @ q"
    then obtain p q where pq: "c # cs = p @ sub @ q" by blast
    show "includes_str (c # cs) sub"
    proof (cases p)
      case Nil
      with pq have "prefix sub (c # cs)" by (simp add: prefix_def)
      then show ?thesis by simp
    next
      case (Cons a p')
      with pq have "cs = p' @ sub @ q" by simp
      with Cons.IH show ?thesis by auto
    qed
  qed
qed

lemma not_upper_toLowerCase: "\<not> isUpperAZ (toLowerCase c)"
  by (auto simp: isUpperAZ_def toLowerCase_def)

lemma not_upper_hyphen: "\<not> isUpperAZ (CHR ''-'')"
  by (simp add: isUpperAZ_def)

lemma kebabCase_no_upper: "list_all (\<lambda>c. \<not> isUpperAZ c) (kebabCase s)"
  by (induction s) (simp_all add: not_upper_toLowerCase not_upper_hyphen)

lemma kebabCase_fixed: "list_all (\<lambda>c. \<not> isUpperAZ c) s \<Longrightarrow> kebabCase s = s"
  by (induction s) simp_all

lemma kebabCase_idem: "kebabCase (kebabCase s) = kebabCase s"
  by (rule kebabCase_fixed) (rule kebabCase_no_upper)

lemma kebabCase_append: "kebabCase (xs @ ys) = kebabCase xs @ kebabCase ys"
  by (induction xs) simp_all

lemma replace_Hook_no_upper:
  assumes "list_all (\<lambda>c. \<not> isUpperAZ c) s"
  shows "replace_Hook s = s"
proof (cases "suffix ''Hook'' s")
  case True
  then obtain p where "s = p @ ''Hook''" by (auto simp: suffix_def)
  with assms have "\<not> isUpperAZ (CHR ''H'')" by simp
  then show ?thesis by (simp add: isUpperAZ_def)
next
  case False
  then show ?thesis by (simp add: replace_Hook_def)
qed

lemma replace_use_append: "replace_use (''use'' @ b) = b"
  by (simp add: replace_use_def)

lemma replace_Hook_append: "replace_Hook (b @ ''Hook'') = b"
  by (simp add: replace_Hook_def suffix_def)

lemma replace_Hook_none: "\<not> suffix ''Hook'' s \<Longrightarrow> replace_Hook s = s"
  by (simp add: replace_Hook_def)

lemma replace_use_none: "\<not> prefix ''use'' s \<Longrightarrow> replace_use s = s"
  by (simp add: replace_use_def)

lemma kebabCase_Counter: "kebabCase ''Counter'' = ''-counter''"
  by code_simp

lemma extractHookName_useCounterHook: "extractHookName ''useCounterHook'' = ''Counter''"
  by code_simp

lemma ExtractHookName_alias_one_affix: "ExtractHookName ''useCounterHook'' = ''CounterHook''"
  by code_simp

section \<open>Claims about the Naming Resolver\<close>

text \<open>
  C2. The claim: the hyphenation inserts one hyphen before each capital letter other
  than the first character of the name, so that \<open>Counter\<close> gives an output with no leading
  hyphen. The source's \<open>kebabCase\<close> (and the same replacement inlined in the enhanced hook
  factory) puts a hyphen before every capital, the first character included: at
  \<open>Counter\<close> it returns \<open>-counter\<close>, where the factory's own usage comment records
  \<open>kebabName: "counter"\<close>.
\<close>

theorem C2_kebabCase_leading_hyphen:
  "kebabCase ''Counter'' = ''-counter'' \<and> kebabCase ''Counter'' \<noteq> ''counter''
   \<and> reactiveId ''useCounter'' = ''-counter''"
  by code_simp

text \<open>
  C3, as stated: applying the full transform (stripping, then hyphenation) to its own
  output gives the same output, for every input. It fails where the output itself
  starts with \<open>use\<close>: \<open>useuser\<close> gives \<open>user\<close>, and \<open>user\<close> gives \<open>r\<close>.
\<close>

theorem C3_reactiveId_not_idempotent:
  "reactiveId (reactiveId ''useuser'') \<noteq> reactiveId ''useuser''"
  by code_simp

text \<open>
  C3, amended: for every input whose output does not start with \<open>use\<close>, applying the full
  transform to its own output gives the same output; the hyphenation step alone is
  idempotent on every input; and on an input with no capital letter (an already
  hyphenated name) the hyphenation changes nothing, so the full transform only removes
  a leading \<open>use\<close> and inserts no hyphen.
\<close>

theorem C3_reactiveId_idempotent_amended:
  "(\<not> prefix ''use'' (reactiveId s) \<longrightarrow> reactiveId (reactiveId s) = reactiveId s)
   \<and> kebabCase (kebabCase s) = kebabCase s
   \<and> (list_all (\<lambda>c. \<not> isUpperAZ c) s \<longrightarrow> kebabCase s = s \<and> reactiveId s = replace_use s)"
proof (intro conjI impI)
  assume nu: "\<not> prefix ''use'' (reactiveId s)"
  have low: "list_all (\<lambda>c. \<not> isUpperAZ c) (reactiveId s)"
    by (simp add: reactiveId_def kebabCase_no_upper)
  have "extractHookName (reactiveId s) = reactiveId s"
    using nu low by (simp add: extractHookName_def replace_use_none replace_Hook_no_upper)
  then show "reactiveId (reactiveId s) = reactiveId s"
    using low by (simp add: reactiveId_def [of "reactiveId s"] kebabCase_fixed)
next
  show "kebabCase (kebabCase s) = kebabCase s" by (rule kebabCase_idem)
next
  assume low: "list_all (\<lambda>c. \<not> isUpperAZ c) s"
  then show "kebabCase s = s" by (rule kebabCase_fixed)
next
  assume low: "list_all (\<lambda>c. \<not> isUpperAZ c) s"
  then have low': "list_all (\<lambda>c. \<not> isUpperAZ c) (replace_use s)"
    by (auto simp: replace_use_def list_all_iff dest: in_set_dropD)
  then show "reactiveId s = replace_use s"
    by (simp add: reactiveId_def extractHookName_def replace_Hook_no_upper kebabCase_fixed)
qed

theorem C3_reactiveId_idempotent_witness:
  "\<not> prefix ''use'' (reactiveId ''useUserProfile'')
   \<and> reactiveId (reactiveId ''useUserProfile'') = reactiveId ''useUserProfile''
   \<and> reactiveId ''useUserProfile'' = ''-user-profile''
   \<and> list_all (\<lambda>c. \<not> isUpperAZ c) ''use-case''
   \<and> kebabCase ''use-case'' = ''use-case'' \<and> reactiveId ''use-case'' = ''-case''"
proof -
  have v: "reactiveId ''useUserProfile'' = ''-user-profile''" by code_simp
  have p: "\<not> prefix ''use'' (reactiveId ''useUserProfile'')" by (simp add: v)
  have l: "list_all (\<lambda>c. \<not> isUpperAZ c) ''use-case''" by code_simp
  have r: "replace_use ''use-case'' = ''-case''" by code_simp
  from C3_reactiveId_idempotent_amended [of "''useUserProfile''"] p
  have a: "reactiveId (reactiveId ''useUserProfile'') = reactiveId ''useUserProfile''"
    by blast
  from C3_reactiveId_idempotent_amended [of "''use-case''"] l
  have b: "kebabCase ''use-case'' = ''use-case'' \<and> reactiveId ''use-case'' = replace_use ''use-case''"
    by blast
  from p a v l b r show ?thesis by simp
qed

text \<open>
  C4. \<open>extractHookName\<close> removes a leading \<open>use\<close> and a trailing \<open>Hook\<close>, both when both
  are present, and leaves a name that has neither as it is; \<open>useCounterHook\<close> gives
  \<open>Counter\<close>. Only one occurrence of each is removed: the bare name \<open>b\<close> below is
  arbitrary.
\<close>

theorem C4_extractHookName_strips:
  "extractHookName (''use'' @ b @ ''Hook'') = b
   \<and> (\<not> suffix ''Hook'' b \<longrightarrow> extractHookName (''use'' @ b) = b)
   \<and> (\<not> prefix ''use'' (b @ ''Hook'') \<longrightarrow> extractHookName (b @ ''Hook'') = b)
   \<and> (\<not> prefix ''use'' b \<and> \<not> suffix ''Hook'' b \<longrightarrow> extractHookName b = b)
   \<and> extractHookName ''useCounterHook'' = ''Counter''"
proof (intro conjI impI)
  show "extractHookName (''use'' @ b @ ''Hook'') = b"
    unfolding extractHookName_def replace_use_append by (rule replace_Hook_append)
next
  assume "\<not> suffix ''Hook'' b"
  then show "extractHookName (''use'' @ b) = b"
    unfolding extractHookName_def replace_use_append by (rule replace_Hook_none)
next
  assume "\<not> prefix ''use'' (b @ ''Hook'')"
  then show "extractHookName (b @ ''Hook'') = b"
    by (simp add: extractHookName_def replace_use_none replace_Hook_append)
next
  assume "\<not> prefix ''use'' b \<and> \<not> suffix ''Hook'' b"
  then show "extractHookName b = b"
    by (simp add: extractHookName_def replace_use_none replace_Hook_none)
next
  show "extractHookName ''useCounterHook'' = ''Counter''"
    by (rule extractHookName_useCounterHook)
qed

theorem C4_extractHookName_witness:
  "extractHookName (''use'' @ ''Counter'' @ ''Hook'') = ''Counter''
   \<and> \<not> suffix ''Hook'' ''Counter'' \<and> extractHookName (''use'' @ ''Counter'') = ''Counter''
   \<and> \<not> prefix ''use'' (''Counter'' @ ''Hook'')
   \<and> extractHookName (''Counter'' @ ''Hook'') = ''Counter''
   \<and> \<not> prefix ''use'' ''Counter'' \<and> extractHookName ''Counter'' = ''Counter''"
proof -
  have s: "\<not> suffix ''Hook'' ''Counter''" by (simp add: suffix_to_prefix)
  have p: "\<not> prefix ''use'' (''Counter'' @ ''Hook'')" by simp
  have q: "\<not> prefix ''use'' ''Counter''" by simp
  from C4_extractHookName_strips [of "''Counter''"] s p q show ?thesis by blast
qed

section \<open>Claims about framework detection\<close>

text \<open>
  C10. \<open>inferHookContext\<close> is a function of the file name alone. The framework is
  \<open>react\<close> whenever the name contains \<open>.tsx\<close> or \<open>.jsx\<close>, also when it contains \<open>.solid\<close>
  as well (\<open>Counter.solid.tsx\<close>); otherwise \<open>solid\<close> for \<open>.solid\<close>, otherwise \<open>vue\<close> for
  \<open>.vue\<close>, otherwise \<open>react\<close>. The imports are the fixed list of the inferred framework,
  and the file name is passed through.
\<close>

theorem C10_inferHookContext:
  "hc_filename (inferHookContext f) = f
   \<and> hc_imports (inferHookContext f) = inferImportsFromFramework (hc_framework (inferHookContext f))
   \<and> (includes_str f ''.tsx'' \<or> includes_str f ''.jsx'' \<longrightarrow>
        hc_framework (inferHookContext f) = React)
   \<and> (\<not> includes_str f ''.tsx'' \<and> \<not> includes_str f ''.jsx'' \<and> includes_str f ''.solid'' \<longrightarrow>
        hc_framework (inferHookContext f) = Solid)
   \<and> (\<not> includes_str f ''.tsx'' \<and> \<not> includes_str f ''.jsx'' \<and> \<not> includes_str f ''.solid''
        \<and> includes_str f ''.vue'' \<longrightarrow> hc_framework (inferHookContext f) = Vue)
   \<and> (\<not> includes_str f ''.tsx'' \<and> \<not> includes_str f ''.jsx'' \<and> \<not> includes_str f ''.solid''
        \<and> \<not> includes_str f ''.vue'' \<longrightarrow> hc_framework (inferHookContext f) = React)
   \<and> hc_framework (inferHookContext ''Counter.solid.tsx'') = React
   \<and> hc_imports (inferHookContext ''Counter.solid.tsx'') = [''useState'', ''useEffect'']"
  by (simp add: inferHookContext_def inferFrameworkFromFilename_def Let_def)

theorem C10_inferHookContext_witness:
  "includes_str ''Counter.solid.tsx'' ''.tsx'' \<and> includes_str ''Counter.solid.tsx'' ''.solid''
   \<and> hc_framework (inferHookContext ''Counter.solid.tsx'') = React
   \<and> \<not> includes_str ''Counter.solid'' ''.tsx'' \<and> \<not> includes_str ''Counter.solid'' ''.jsx''
   \<and> includes_str ''Counter.solid'' ''.solid''
   \<and> hc_framework (inferHookContext ''Counter.solid'') = Solid
   \<and> hc_imports (inferHookContext ''Counter.solid'') = [''createSignal'', ''createEffect'']
   \<and> \<not> includes_str ''Counter.vue'' ''.tsx'' \<and> \<not> includes_str ''Counter.vue'' ''.jsx''
   \<and> \<not> includes_str ''Counter.vue'' ''.solid'' \<and> includes_str ''Counter.vue'' ''.vue''
   \<and> hc_framework (inferHookContext ''Counter.vue'') = Vue
   \<and> hc_imports (inferHookContext ''Counter.vue'') = [''ref'', ''onMounted'']
   \<and> \<not> includes_str ''UserHooks.ts'' ''.tsx'' \<and> \<not> includes_str ''UserHooks.ts'' ''.jsx''
   \<and> \<not> includes_str ''UserHooks.ts'' ''.solid'' \<and> \<not> includes_str ''UserHooks.ts'' ''.vue''
   \<and> hc_framework (inferHookContext ''UserHooks.ts'') = React"
proof -
  have t: "includes_str ''Counter.solid.tsx'' ''.tsx'' \<and> includes_str ''Counter.solid.tsx'' ''.solid''"
    by simp
  have b: "\<not> includes_str ''Counter.solid'' ''.tsx'' \<and> \<not> includes_str ''Counter.solid'' ''.jsx''
    \<and> includes_str ''Counter.solid'' ''.solid''" by simp
  have c: "\<not> includes_str ''Counter.vue'' ''.tsx'' \<and> \<not> includes_str ''Counter.vue'' ''.jsx''
    \<and> \<not> includes_str ''Counter.vue'' ''.solid'' \<and> includes_str ''Counter.vue'' ''.vue''" by simp
  have d: "\<not> includes_str ''UserHooks.ts'' ''.tsx'' \<and> \<not> includes_str ''UserHooks.ts'' ''.jsx''
    \<and> \<not> includes_str ''UserHooks.ts'' ''.solid'' \<and> \<not> includes_str ''UserHooks.ts'' ''.vue''" by simp
  have ft: "hc_framework (inferHookContext ''Counter.solid.tsx'') = React"
    using C10_inferHookContext [of "''Counter.solid.tsx''"] t by (simp only: simp_thms)
  have fb: "hc_framework (inferHookContext ''Counter.solid'') = Solid"
    using C10_inferHookContext [of "''Counter.solid''"] b by (simp only: simp_thms)
  have fc: "hc_framework (inferHookContext ''Counter.vue'') = Vue"
    using C10_inferHookContext [of "''Counter.vue''"] c by (simp only: simp_thms)
  have fd: "hc_framework (inferHookContext ''UserHooks.ts'') = React"
    using C10_inferHookContext [of "''UserHooks.ts''"] d by (simp only: simp_thms)
  have ib: "hc_imports (inferHookContext ''Counter.solid'') = [''createSignal'', ''createEffect'']"
    using C10_inferHookContext [of "''Counter.solid''"] fb by simp
  have ic: "hc_imports (inferHookContext ''Counter.vue'') = [''ref'', ''onMounted'']"
    using C10_inferHookContext [of "''Counter.vue''"] fc by simp
  show ?thesis
    by (intro conjI) (simp_all only: t b c d ft fb fc fd ib ic simp_thms)
qed

section \<open>Facts about the factories, the Component System and the adapters\<close>

lemmas system_defs =
  create_def resolveId_def closesCycle_def duplicatePluginNames_def pluginsOf_def
  ConfigCore.truncate_def construct_def set_value_def get_value_def commit_def Let_def

lemmas scenario_defs =
  counterRequest_def counterConfig_def doubling_def doublingPlugin_def noHandlers_def
  reactiveRequest_def lifecyclePlugin_def






lemma coreScenario_eq: "coreScenario n = Inr (2 * n)"
  by (simp add: coreScenario_def system_defs scenario_defs)

lemma frameworkAdapters_simps:
  "frameworkAdapters ''react'' = Some ReactAdapter"
  "frameworkAdapters ''solid'' = Some SolidAdapter"
  "frameworkAdapters ''vue'' = Some VueAdapter"
  by (simp_all add: frameworkAdapters_def)

lemma frameworkAdapters_other:
  "framework \<notin> {''react'', ''solid'', ''vue''} \<Longrightarrow> frameworkAdapters framework = None"
  by (simp add: frameworkAdapters_def)

lemma frameworkAdapters_Some_iff:
  "(frameworkAdapters framework \<noteq> None) = (framework \<in> {''react'', ''solid'', ''vue''})"
  by (auto simp: frameworkAdapters_def)

lemma adapterScenario_react: "adapterScenario ''react'' n = Some (Inr (2 * n), n, 0)"
  by (simp add: adapterScenario_def useReactive_def frameworkAdapters_simps setValue_def
      system_defs scenario_defs)

lemma adapterScenario_solid: "adapterScenario ''solid'' n = Some (Inr (2 * n), n, n)"
  by (simp add: adapterScenario_def useReactive_def frameworkAdapters_simps setValue_def
      system_defs scenario_defs)

lemma adapterScenario_vue: "adapterScenario ''vue'' n = Some (Inr (2 * n), n, n)"
  by (simp add: adapterScenario_def useReactive_def frameworkAdapters_simps setValue_def
      system_defs scenario_defs)














lemma counter_trace:
  "w_trace (setValues (fst counterBinding) [5, 7] (snd counterBinding))
     = [SetResolved, LocalWrite 5, SetResolved, LocalWrite 7]"
  by (simp add: counterBinding_def useReactive_def frameworkAdapters_simps setValue_def
      system_defs scenario_defs)



lemma useReactive_taken:
  "useReactive ''solid'' counterConfig ''0000'' taken =
     Inr (rejectedBinding, \<lparr>w_system = taken, w_local = SolidSignal 0, w_trace = []\<rparr>)"
  by (simp add: rejectedBinding_def taken_def useReactive_def frameworkAdapters_simps
      system_defs scenario_defs)

section \<open>Claims about the hook factories\<close>





text \<open>
  C9, as stated: the \<open>beforeCreate\<close> interceptors of the naming plugin and of the framework
  plugin preserve every entry that \<open>meta\<close> already had. An entry under one of the plugin's
  own keys is replaced: a configuration whose \<open>meta\<close> has \<open>framework: "vue"\<close> leaves the
  framework plugin for react with \<open>framework: "react"\<close>.
\<close>

theorem C9_existing_meta_entry_replaced:
  "metaOf (frameworkPlugin_beforeCreate React vueTaggedConfig) ''framework''
     \<noteq> metaOf vueTaggedConfig ''framework''"
  by (simp add: frameworkPlugin_beforeCreate_def metaOf_def vueTaggedConfig_def)

text \<open>
  C9, amended: both interceptors return a configuration in which every field other than
  \<open>meta\<close> is unchanged (the fields an extension adds included); \<open>meta\<close> is present in the
  result, keeps every entry under a key that is not one of the plugin's own, and holds
  the plugin's values under the plugin's own keys (\<open>hookName\<close>, \<open>processedName\<close>,
  \<open>kebabName\<close>, or \<open>framework\<close>), whatever was there before.
\<close>

theorem C9_beforeCreate_frame:
  "(\<forall>key. key \<notin> {''hookName'', ''processedName'', ''kebabName''} \<longrightarrow>
       metaOf (namingPlugin_beforeCreate rawName processedName kebabName c) key = metaOf c key)
   \<and> (\<forall>key. key \<noteq> ''framework'' \<longrightarrow>
         metaOf (frameworkPlugin_beforeCreate framework c) key = metaOf c key)
   \<and> cfg_id (namingPlugin_beforeCreate rawName processedName kebabName c) = cfg_id c
   \<and> cfg_type (namingPlugin_beforeCreate rawName processedName kebabName c) = cfg_type c
   \<and> cfg_initialValue (namingPlugin_beforeCreate rawName processedName kebabName c) = cfg_initialValue c
   \<and> cfg_dependencies (namingPlugin_beforeCreate rawName processedName kebabName c) = cfg_dependencies c
   \<and> ConfigCore.more (namingPlugin_beforeCreate rawName processedName kebabName c) = ConfigCore.more c
   \<and> cfg_meta (namingPlugin_beforeCreate rawName processedName kebabName c) \<noteq> None
   \<and> metaOf (namingPlugin_beforeCreate rawName processedName kebabName c) ''hookName''
        = Some (MetaString rawName)
   \<and> metaOf (namingPlugin_beforeCreate rawName processedName kebabName c) ''processedName''
        = Some (MetaString processedName)
   \<and> metaOf (namingPlugin_beforeCreate rawName processedName kebabName c) ''kebabName''
        = Some (MetaString kebabName)
   \<and> cfg_id (frameworkPlugin_beforeCreate framework c) = cfg_id c
   \<and> cfg_type (frameworkPlugin_beforeCreate framework c) = cfg_type c
   \<and> cfg_initialValue (frameworkPlugin_beforeCreate framework c) = cfg_initialValue c
   \<and> cfg_dependencies (frameworkPlugin_beforeCreate framework c) = cfg_dependencies c
   \<and> ConfigCore.more (frameworkPlugin_beforeCreate framework c) = ConfigCore.more c
   \<and> cfg_meta (frameworkPlugin_beforeCreate framework c) \<noteq> None
   \<and> metaOf (frameworkPlugin_beforeCreate framework c) ''framework''
        = Some (MetaString (frameworkName framework))
   \<and> pl_beforeCreate (namingPlugin rawName processedName kebabName :: ('v, 'a) Plugin)
        = Some (\<lambda>config. Inr (namingPlugin_beforeCreate rawName processedName kebabName config))
   \<and> pl_beforeCreate (createFrameworkPlugin framework :: ('v, 'a) Plugin)
        = Some (\<lambda>config. Inr (frameworkPlugin_beforeCreate framework config))"
  by (simp add: namingPlugin_beforeCreate_def frameworkPlugin_beforeCreate_def metaOf_def
      namingPlugin_def createFrameworkPlugin_def)

theorem C9_beforeCreate_frame_witness:
  "''owner'' \<notin> {''hookName'', ''processedName'', ''kebabName''}
   \<and> metaOf (namingPlugin_beforeCreate ''useCounter'' ''Counter'' ''-counter'' taggedConfig) ''owner''
       = Some (MetaOther ())
   \<and> ''owner'' \<noteq> ''framework''
   \<and> metaOf (frameworkPlugin_beforeCreate Vue taggedConfig) ''owner'' = Some (MetaOther ())
   \<and> metaOf (frameworkPlugin_beforeCreate Vue taggedConfig) ''framework'' = Some (MetaString ''vue'')"
proof -
  have k: "''owner'' \<notin> {''hookName'', ''processedName'', ''kebabName''}" by simp
  have k': "''owner'' \<noteq> ''framework''" by simp
  have m: "metaOf taggedConfig ''owner'' = Some (MetaOther ())"
    by (simp add: metaOf_def taggedConfig_def)
  note t = C9_beforeCreate_frame [of "''useCounter''" "''Counter''" "''-counter''" taggedConfig Vue]
  from t [THEN conjunct1, THEN spec, THEN mp, OF k] m
  have a: "metaOf (namingPlugin_beforeCreate ''useCounter'' ''Counter'' ''-counter'' taggedConfig) ''owner''
       = Some (MetaOther ())" by (simp only:)
  from t [THEN conjunct2, THEN conjunct1, THEN spec, THEN mp, OF k'] m
  have b: "metaOf (frameworkPlugin_beforeCreate Vue taggedConfig) ''owner'' = Some (MetaOther ())"
    by (simp only:)
  have c: "metaOf (frameworkPlugin_beforeCreate Vue taggedConfig) ''framework'' = Some (MetaString ''vue'')"
    by (simp add: frameworkPlugin_beforeCreate_def metaOf_def)
  from k k' a b c show ?thesis by simp
qed

section \<open>Claims about the framework adapters\<close>

text \<open>
  C7. \<open>frameworkAdapters\<close> has exactly the three keys \<open>react\<close>, \<open>solid\<close> and \<open>vue\<close>. For
  \<open>react\<close>, \<open>useReactive\<close> returns the value itself with a setter; for \<open>solid\<close>, the
  accessor function of the signal with a setter; for \<open>vue\<close>, the ref object, whose \<open>value\<close>
  field holds the value (with a setter as well). For any other framework argument
  \<open>useReactive\<close> returns no binding: it fails, with the \<open>TypeError\<close> of calling \<open>setup\<close> on
  a missing adapter, before the \<open>switch\<close> and its \<open>Unsupported framework\<close> error are
  reached.
\<close>

theorem C7_three_shapes:
  "(frameworkAdapters framework \<noteq> None) = (framework \<in> {''react'', ''solid'', ''vue''})
   \<and> (\<exists>b w. useReactive ''react'' config uuid sys = Inr (b, w)
        \<and> b_value b = DirectValue (hk_initialValue config) \<and> b_setValue b = ReactSetValue
        \<and> w_local w = ReactState (hk_initialValue config))
   \<and> (\<exists>b w. useReactive ''solid'' config uuid sys = Inr (b, w)
        \<and> b_value b = AccessorFunction \<and> b_setValue b = SolidSetValue
        \<and> w_local w = SolidSignal (hk_initialValue config)
        \<and> readBinding (b_value b) (w_local w) = hk_initialValue config)
   \<and> (\<exists>b w. useReactive ''vue'' config uuid sys = Inr (b, w)
        \<and> b_value b = RefObject \<and> b_setValue b = VueSetValue
        \<and> w_local w = VueRef (hk_initialValue config)
        \<and> readBinding (b_value b) (w_local w) = hk_initialValue config)
   \<and> (framework \<notin> {''react'', ''solid'', ''vue''} \<longrightarrow>
        useReactive framework config uuid sys = Inl TypeError)"
proof (intro conjI impI)
  show "(frameworkAdapters framework \<noteq> None) = (framework \<in> {''react'', ''solid'', ''vue''})"
    by (rule frameworkAdapters_Some_iff)
next
  show "\<exists>b w. useReactive ''react'' config uuid sys = Inr (b, w)
        \<and> b_value b = DirectValue (hk_initialValue config) \<and> b_setValue b = ReactSetValue
        \<and> w_local w = ReactState (hk_initialValue config)"
    by (simp add: useReactive_def frameworkAdapters_simps Let_def split: prod.splits)
next
  show "\<exists>b w. useReactive ''solid'' config uuid sys = Inr (b, w)
        \<and> b_value b = AccessorFunction \<and> b_setValue b = SolidSetValue
        \<and> w_local w = SolidSignal (hk_initialValue config)
        \<and> readBinding (b_value b) (w_local w) = hk_initialValue config"
    by (simp add: useReactive_def frameworkAdapters_simps Let_def split: prod.splits)
next
  show "\<exists>b w. useReactive ''vue'' config uuid sys = Inr (b, w)
        \<and> b_value b = RefObject \<and> b_setValue b = VueSetValue
        \<and> w_local w = VueRef (hk_initialValue config)
        \<and> readBinding (b_value b) (w_local w) = hk_initialValue config"
    by (simp add: useReactive_def frameworkAdapters_simps Let_def split: prod.splits)
next
  assume "framework \<notin> {''react'', ''solid'', ''vue''}"
  then show "useReactive framework config uuid sys = Inl TypeError"
    by (simp add: useReactive_def frameworkAdapters_other)
qed

theorem C7_three_shapes_witness:
  "''svelte'' \<notin> {''react'', ''solid'', ''vue''}
   \<and> useReactive ''svelte'' counterConfig ''0000'' [] = Inl TypeError
   \<and> frameworkAdapters ''svelte'' = None"
proof -
  have n: "''svelte'' \<notin> {''react'', ''solid'', ''vue''}" by simp
  from C7_three_shapes [of "''svelte''" counterConfig "''0000''" "[]"] n
  show ?thesis by simp
qed




text \<open>
  C5, as stated: after \<open>setValue(5)\<close> on the counter with the doubling plugin, the value
  that the binding exposes equals the result of the \<open>beforeUpdate\<close> fold, 10, and not the
  caller's argument. Each closure writes \<open>newValue\<close> itself to the local state: for solid
  \<open>get("counter")\<close> returns 10 while the signal and the accessor give 5.
\<close>

theorem C5_binding_shows_raw_argument:
  "adapterScenario ''solid'' 5 = Some (Inr 10, 5, 5)
   \<and> adapterScenario ''solid'' 5 \<noteq> Some (Inr 10, 10, 10)"
  by (simp add: adapterScenario_solid)

text \<open>
  C5, amended: after creating id \<open>counter\<close> with initial value 0 and one plugin that
  doubles the value in \<open>beforeUpdate\<close>, \<open>set("counter", 5)\<close> makes \<open>get("counter")\<close> return
  10, the result of the fold (and \<open>2 * n\<close> for any \<open>n\<close>); the same holds when the update
  goes through the \<open>setValue\<close> of an adapter. The framework-local state that \<open>setValue\<close>
  writes once \<open>set\<close> has resolved holds the caller's argument, 5: the accessor of solid
  and the ref of vue give 5, and the \<open>value\<close> of the react binding is still the value read
  when the binding was made, 0.
\<close>

theorem C5_counter_scenario_amended:
  "coreScenario 5 = Inr 10
   \<and> coreScenario n = Inr (2 * n)
   \<and> adapterScenario ''react'' 5 = Some (Inr 10, 5, 0)
   \<and> adapterScenario ''solid'' 5 = Some (Inr 10, 5, 5)
   \<and> adapterScenario ''vue'' 5 = Some (Inr 10, 5, 5)
   \<and> adapterScenario ''react'' n = Some (Inr (2 * n), n, 0)
   \<and> adapterScenario ''solid'' n = Some (Inr (2 * n), n, n)
   \<and> adapterScenario ''vue'' n = Some (Inr (2 * n), n, n)"
  by (simp add: coreScenario_eq adapterScenario_react adapterScenario_solid adapterScenario_vue)

end
